theory Spec2Isabelle
  imports Main "HOL-Library.Sublist"
begin

section \<open>Checkpoint loading for ESMFold (esm/esmfold/v1/pretrained.py)\<close>

text \<open>
  The module reads a checkpoint with \<^verbatim>\<open>torch.load\<close>, builds an \<^verbatim>\<open>ESMFold\<close> model from the
  configuration stored in it, compares the parameter names of the model with those of the
  checkpoint, and either raises \<^verbatim>\<open>RuntimeError\<close> or loads the weights. Two selectors,
  \<^verbatim>\<open>esmfold_v0\<close> and \<^verbatim>\<open>esmfold_v1\<close>, call the loader when the path names their model.

  Exceptions are values of type \<open>error\<close>; a function that may raise returns
  \<open>error + 'a\<close>, with \<open>Inl\<close> for the exception. The calls into the libraries
  (deserialisation, construction of the model, loading of the weights) are recorded in a
  list of events, in the order in which the source makes them.
\<close>

subsection \<open>Strings\<close>

text \<open>\<^verbatim>\<open>s.startswith(p)\<close>: \<open>p\<close> occurs in \<open>s\<close> at position 0.\<close>

fun startswith :: "string \<Rightarrow> string \<Rightarrow> bool" where
  "startswith s [] = True"
| "startswith [] (p # ps) = False"
| "startswith (c # cs) (p # ps) = (c = p \<and> startswith cs ps)"

text \<open>\<^verbatim>\<open>sub in s\<close>: \<open>sub\<close> occurs in \<open>s\<close> at some position.\<close>

fun str_contains :: "string \<Rightarrow> string \<Rightarrow> bool" where
  "str_contains sub [] = (sub = [])"
| "str_contains sub (c # cs) = (startswith (c # cs) sub \<or> str_contains sub cs)"

text \<open>\<^verbatim>\<open>sep.join(xs)\<close>.\<close>

fun join :: "string \<Rightarrow> string list \<Rightarrow> string" where
  "join sep [] = []"
| "join sep [x] = x"
| "join sep (x # y # ys) = x @ sep @ join sep (y # ys)"

definition apostrophe :: char where
  "apostrophe = CHR 0x27"

subsection \<open>Paths\<close>

text \<open>
  A \<^verbatim>\<open>pathlib.PosixPath\<close>: whether it starts at the root, and its components. \<^verbatim>\<open>as_posix\<close>
  and \<^verbatim>\<open>str\<close> give the components joined by slashes, \<^verbatim>\<open>name\<close> the final component.
\<close>

datatype path = PosixPath (is_absolute: bool) (components: "string list")

definition as_posix :: "path \<Rightarrow> string" where
  "as_posix p =
     (if is_absolute p then ''/'' @ join ''/'' (components p)
      else if components p = [] then ''.''
      else join ''/'' (components p))"

definition str :: "path \<Rightarrow> string" where
  "str p = as_posix p"

definition name :: "path \<Rightarrow> string" where
  "name p = (if components p = [] then [] else last (components p))"

text \<open>
  The argument of a selector: the annotation says \<^verbatim>\<open>str\<close>, the body calls a method that
  only a path has. Both kinds of argument are modelled.
\<close>

datatype pyarg = StrArg string | PathArg path

subsection \<open>Python values, exceptions, the model class\<close>

text \<open>
  A deserialised value is a mapping with string keys (in insertion order) or a leaf: a
  tensor or any other value that is not a mapping. Tensors are kept abstract (type \<open>'w\<close>).
\<close>

datatype 'w pyval = PyDict "(string \<times> 'w pyval) list" | PyLeaf 'w

datatype error =
    RuntimeError string
  | KeyError string
  | TypeError
  | AttributeError string
  | OtherError string

text \<open>\<^verbatim>\<open>d[k]\<close>: a missing key raises \<^verbatim>\<open>KeyError\<close>; a leaf cannot be subscripted by a name.\<close>

fun getitem :: "'w pyval \<Rightarrow> string \<Rightarrow> error + 'w pyval" where
  "getitem (PyDict kvs) k = (case map_of kvs k of None \<Rightarrow> Inl (KeyError k) | Some v \<Rightarrow> Inr v)"
| "getitem (PyLeaf w) k = Inl TypeError"

text \<open>
  An \<^verbatim>\<open>ESMFold\<close> instance, as far as this module looks at it: the configuration it was built
  from and its \<^verbatim>\<open>state_dict()\<close>, the ordered mapping of parameter names to tensors.
\<close>

record 'w esmfold =
  esmfold_config :: "'w pyval"
  state_dict :: "(string \<times> 'w pyval) list"

text \<open>
  Modelled from the spec: the class \<^verbatim>\<open>ESMFold\<close> (esm/esmfold/v1/esmfold.py) and the method
  \<^verbatim>\<open>load_state_dict\<close> it inherits from \<^verbatim>\<open>torch.nn.Module\<close> are not part of the source file.
  The spec: "load all matching weights permissively (ignoring extra/missing optional
  keys)". Every parameter of the model whose name the checkpoint has takes the
  checkpoint's value, every other parameter keeps its own, and names that only the
  checkpoint has are ignored. With \<^verbatim>\<open>strict=True\<close> a missing or an unexpected name is an
  error instead. Shapes and types of tensors are not modelled.
\<close>

definition copy_matching :: "'w esmfold \<Rightarrow> (string \<times> 'w pyval) list \<Rightarrow> 'w esmfold" where
  "copy_matching model st = model\<lparr>state_dict :=
     map (\<lambda>(k, v). (k, case map_of st k of None \<Rightarrow> v | Some v' \<Rightarrow> v')) (state_dict model)\<rparr>"

definition load_state_dict ::
  "'w esmfold \<Rightarrow> (string \<times> 'w pyval) list \<Rightarrow> bool \<Rightarrow> error + 'w esmfold" where
  "load_state_dict model st strict =
     (let missing_keys = filter (\<lambda>k. k \<notin> set (map fst st)) (map fst (state_dict model));
          unexpected_keys = filter (\<lambda>k. k \<notin> set (map fst (state_dict model))) (map fst st)
      in if strict \<and> (missing_keys \<noteq> [] \<or> unexpected_keys \<noteq> [])
         then Inl (RuntimeError ''Error(s) in loading state_dict'')
         else Inr (copy_matching model st))"

subsection \<open>The environment\<close>

text \<open>
  What the module calls and does not define: \<^verbatim>\<open>torch.load\<close> (the file system and the
  deserialiser; it gets the path string and the \<^verbatim>\<open>map_location\<close>), the constructor of
  \<^verbatim>\<open>ESMFold\<close>, and the order in which Python iterates over a set of strings, which the
  language leaves open. \<open>set_iter\<close> gets the elements of the set in a list and returns
  them in the order of iteration.
\<close>

record 'w env =
  torch_load :: "string \<Rightarrow> string \<Rightarrow> error + 'w pyval"
  ESMFold :: "'w pyval \<Rightarrow> error + 'w esmfold"
  set_iter :: "string list \<Rightarrow> string list"

text \<open>An iteration visits every element of the set, and each once.\<close>

definition set_iter_ok :: "'w env \<Rightarrow> bool" where
  "set_iter_ok env =
     (\<forall>xs. distinct xs \<longrightarrow> distinct (set_iter env xs) \<and> set (set_iter env xs) = set xs)"

datatype 'w event =
    TorchLoad string string
  | ESMFoldInit "'w pyval"
  | LoadStateDict "(string \<times> 'w pyval) list" bool

subsection \<open>The loader\<close>

text \<open>\<^verbatim>\<open>expected_keys - found_keys\<close> on sets, each given by a list of its elements.\<close>

definition set_difference :: "string list \<Rightarrow> string list \<Rightarrow> string list" where
  "set_difference xs ys = filter (\<lambda>k. k \<notin> set ys) xs"

text \<open>
  The loop of lines 41 to 44: every missing key that does not start with \<^verbatim>\<open>esm.\<close> is
  appended to the list.
\<close>

fun collect_essential :: "string list \<Rightarrow> string list \<Rightarrow> string list" where
  "collect_essential acc [] = acc"
| "collect_essential acc (missing_key # rest) =
     (if \<not> startswith missing_key ''esm.''
      then collect_essential (acc @ [missing_key]) rest
      else collect_essential acc rest)"

definition missing_essential_keys :: "'w env \<Rightarrow> string list \<Rightarrow> string list \<Rightarrow> string list" where
  "missing_essential_keys env expected found =
     (let expected_keys = remdups expected;
          found_keys = remdups found
      in collect_essential [] (set_iter env (set_difference expected_keys found_keys)))"

definition missing_message :: "string list \<Rightarrow> string" where
  "missing_message ks = ''Keys '' @ [apostrophe] @ join '', '' ks @ [apostrophe] @ '' are missing.''"

text \<open>
  \<^verbatim>\<open>_load_model\<close>. The result is the list of library calls made and the model or the
  exception. \<^verbatim>\<open>model_state.keys()\<close> needs a mapping: a leaf has no such method.
\<close>

definition load_model :: "'w env \<Rightarrow> path \<Rightarrow> 'w event list \<times> (error + 'w esmfold)" where
  "load_model env model_path =
     (let t1 = [TorchLoad (str model_path) ''cuda:0''] in
      case torch_load env (str model_path) ''cuda:0'' of
        Inl e \<Rightarrow> (t1, Inl e)
      | Inr model_data \<Rightarrow>
      (case getitem model_data ''cfg'' of
        Inl e \<Rightarrow> (t1, Inl e)
      | Inr c \<Rightarrow>
      (case getitem c ''model'' of
        Inl e \<Rightarrow> (t1, Inl e)
      | Inr cfg \<Rightarrow>
      (case getitem model_data ''model'' of
        Inl e \<Rightarrow> (t1, Inl e)
      | Inr model_state \<Rightarrow>
      (let t2 = t1 @ [ESMFoldInit cfg] in
       case ESMFold env cfg of
        Inl e \<Rightarrow> (t2, Inl e)
      | Inr model \<Rightarrow>
      (case model_state of
        PyLeaf w \<Rightarrow> (t2, Inl (AttributeError ''keys''))
      | PyDict st \<Rightarrow>
      (let missing = missing_essential_keys env (map fst (state_dict model)) (map fst st) in
       if missing \<noteq> [] then (t2, Inl (RuntimeError (missing_message missing)))
       else (t2 @ [LoadStateDict st False], load_state_dict model st False))))))))"

subsection \<open>The selectors\<close>

text \<open>The result of a selector: \<open>None\<close> is Python's \<^verbatim>\<open>None\<close>.\<close>

definition returning :: "'w event list \<times> (error + 'w esmfold) \<Rightarrow>
    'w event list \<times> (error + 'w esmfold option)" where
  "returning r = (fst r, case snd r of Inl e \<Rightarrow> Inl e | Inr m \<Rightarrow> Inr (Some m))"

definition esmfold_v0 :: "'w env \<Rightarrow> pyarg \<Rightarrow> 'w event list \<times> (error + 'w esmfold option)" where
  "esmfold_v0 env arg =
     (case arg of
        StrArg s \<Rightarrow> ([], Inl (AttributeError ''as_posix''))
      | PathArg p \<Rightarrow>
          if str_contains ''esmfold_3B_v0'' (as_posix p) then returning (load_model env p)
          else ([], Inr None))"

definition esmfold_v1 :: "'w env \<Rightarrow> pyarg \<Rightarrow> 'w event list \<times> (error + 'w esmfold option)" where
  "esmfold_v1 env arg =
     (case arg of
        StrArg s \<Rightarrow> ([], Inl (AttributeError ''as_posix''))
      | PathArg p \<Rightarrow>
          if str_contains ''esmfold_3B_v1'' (as_posix p) then returning (load_model env p)
          else ([], Inr None))"


subsection \<open>Example data\<close>

text \<open>
  A small model with one parameter of the language model and three of its own, and
  checkpoints for it. Tensors are numbers here.
\<close>

definition example_config :: "nat pyval" where
  "example_config = PyDict [(''trunk_blocks'', PyLeaf 48)]"

definition example_model :: "nat pyval \<Rightarrow> nat esmfold" where
  "example_model cfg = \<lparr>esmfold_config = cfg,
     state_dict = [(''esm.embed'', PyLeaf 0), (''trunk.weight'', PyLeaf 0),
                   (''trunk.esm.weight'', PyLeaf 0), (''head.bias'', PyLeaf 0)]\<rparr>"

definition example_env :: "nat pyval \<Rightarrow> nat env" where
  "example_env data = \<lparr>torch_load = (\<lambda>file device. Inr data),
     ESMFold = (\<lambda>cfg. Inr (example_model cfg)), set_iter = rev\<rparr>"

definition checkpoint_of :: "(string \<times> nat pyval) list \<Rightarrow> (string \<times> nat pyval) list" where
  "checkpoint_of st = [(''cfg'', PyDict [(''model'', example_config)]), (''model'', PyDict st)]"

text \<open>All parameters but the language model's, and one that the model does not have.\<close>

definition complete_state :: "(string \<times> nat pyval) list" where
  "complete_state = [(''trunk.weight'', PyLeaf 7), (''trunk.esm.weight'', PyLeaf 8),
     (''head.bias'', PyLeaf 9), (''extra.bias'', PyLeaf 10)]"

text \<open>Two parameters of the model itself are missing.\<close>

definition partial_state :: "(string \<times> nat pyval) list" where
  "partial_state = [(''trunk.weight'', PyLeaf 7), (''esm.embed'', PyLeaf 5)]"

definition headless_checkpoint :: "(string \<times> nat pyval) list" where
  "headless_checkpoint = [(''cfg'', PyDict [(''model'', example_config)])]"

definition v1_path :: path where
  "v1_path = PosixPath True [''models'', ''esmfold_3B_v1.pt'']"

definition v0_directory_path :: path where
  "v0_directory_path = PosixPath False [''esmfold_3B_v0'', ''weights.pt'']"

definition weights_path :: path where
  "weights_path = PosixPath False [''weights.pt'']"

text \<open>A checkpoint whose \<^verbatim>\<open>cfg\<close> is the number 5, and that has no \<^verbatim>\<open>model\<close>.\<close>

definition scalar_cfg_checkpoint :: "(string \<times> nat pyval) list" where
  "scalar_cfg_checkpoint = [(''cfg'', PyLeaf 5)]"

text \<open>A deserialiser that knows one device only, and a file system without the file.\<close>

definition cuda_only_load :: "nat pyval \<Rightarrow> string \<Rightarrow> string \<Rightarrow> error + nat pyval" where
  "cuda_only_load data file device =
     (if device = ''cuda:0'' then Inr data else Inl (OtherError ''no such device''))"

definition unreadable_env :: "nat env" where
  "unreadable_env = \<lparr>torch_load = (\<lambda>file device. Inl (OtherError ''no such file'')),
     ESMFold = (\<lambda>cfg. Inr (example_model cfg)), set_iter = rev\<rparr>"

section \<open>Properties\<close>

subsection \<open>Strings and key sets\<close>


lemma startswith_prefix: "startswith s p \<longleftrightarrow> prefix p s"
  by (induction s p rule: startswith.induct) auto

lemma str_contains_sublist: "str_contains sub s \<longleftrightarrow> sublist sub s"
  by (induction s) (simp_all add: startswith_prefix sublist_Cons_right)

lemma collect_essential_filter:
  "collect_essential acc ks = acc @ filter (\<lambda>k. \<not> startswith k ''esm.'') ks"
  by (induction ks arbitrary: acc) simp_all

lemma set_missing_essential_keys:
  assumes "set_iter_ok env"
  shows "set (missing_essential_keys env expected found) =
    {k \<in> set expected - set found. \<not> startswith k ''esm.''}"
proof -
  have d: "distinct (set_difference (remdups expected) (remdups found))"
    by (simp add: set_difference_def)
  from assms d have "set (set_iter env (set_difference (remdups expected) (remdups found))) =
      set (set_difference (remdups expected) (remdups found))"
    unfolding set_iter_ok_def by blast
  then show ?thesis
    by (auto simp: missing_essential_keys_def collect_essential_filter set_difference_def)
qed

lemma distinct_missing_essential_keys:
  assumes "set_iter_ok env"
  shows "distinct (missing_essential_keys env expected found)"
proof -
  have d: "distinct (set_difference (remdups expected) (remdups found))"
    by (simp add: set_difference_def)
  from assms d have "distinct (set_iter env (set_difference (remdups expected) (remdups found)))"
    unfolding set_iter_ok_def by blast
  then show ?thesis
    by (simp add: missing_essential_keys_def collect_essential_filter)
qed

lemma load_model_checked:
  assumes "torch_load env (str p) ''cuda:0'' = Inr (PyDict ckpt)"
    and "map_of ckpt ''cfg'' = Some (PyDict c)"
    and "map_of c ''model'' = Some cfg"
    and "map_of ckpt ''model'' = Some (PyDict st)"
    and "ESMFold env cfg = Inr model"
  shows "load_model env p =
    (if missing_essential_keys env (map fst (state_dict model)) (map fst st) \<noteq> []
     then ([TorchLoad (str p) ''cuda:0'', ESMFoldInit cfg],
           Inl (RuntimeError (missing_message
             (missing_essential_keys env (map fst (state_dict model)) (map fst st)))))
     else ([TorchLoad (str p) ''cuda:0'', ESMFoldInit cfg, LoadStateDict st False],
           load_state_dict model st False))"
  using assms by (simp add: load_model_def Let_def)

lemma sublist_join: "k \<in> set ks \<Longrightarrow> sublist k (join sep ks)"
proof (induction sep ks rule: join.induct)
  case (3 sep x y ys)
  show ?case
  proof (cases "k = x")
    case True
    then show ?thesis by simp
  next
    case False
    with 3 have "sublist k (join sep (y # ys))" by simp
    then obtain ps ss where "join sep (y # ys) = ps @ k @ ss"
      by (auto simp: sublist_def)
    then have "join sep (x # y # ys) = (x @ sep @ ps) @ k @ ss" by simp
    then show ?thesis unfolding sublist_def by blast
  qed
qed simp_all

lemma sublist_join_last: "cs \<noteq> [] \<Longrightarrow> sublist x (last cs) \<Longrightarrow> sublist x (join sep cs)"
  by (meson last_in_set sublist_join sublist_order.order_trans)



lemma missing_essential_nonempty:
  assumes "set_iter_ok env"
  shows "missing_essential_keys env expected found \<noteq> [] \<longleftrightarrow>
    (\<exists>k \<in> set expected - set found. \<not> prefix ''esm.'' k)"
proof -
  have "missing_essential_keys env expected found \<noteq> [] \<longleftrightarrow>
      set (missing_essential_keys env expected found) \<noteq> {}"
    by simp
  also have "\<dots> \<longleftrightarrow> (\<exists>k \<in> set expected - set found. \<not> prefix ''esm.'' k)"
    unfolding set_missing_essential_keys [OF assms] startswith_prefix by blast
  finally show ?thesis .
qed

lemma copy_matching_keys: "map fst (state_dict (copy_matching model st)) = map fst (state_dict model)"
  by (simp add: copy_matching_def case_prod_beta)

lemma copy_matching_config: "esmfold_config (copy_matching model st) = esmfold_config model"
  by (simp add: copy_matching_def)

lemma map_of_copy_matching:
  "map_of (state_dict (copy_matching model st)) k =
     (case map_of (state_dict model) k of
        None \<Rightarrow> None
      | Some v \<Rightarrow> (case map_of st k of None \<Rightarrow> Some v | Some v' \<Rightarrow> Some v'))"
proof -
  have "map_of (map (\<lambda>(k, v). (k, case map_of st k of None \<Rightarrow> v | Some v' \<Rightarrow> v')) xs) k =
     (case map_of xs k of
        None \<Rightarrow> None
      | Some v \<Rightarrow> (case map_of st k of None \<Rightarrow> Some v | Some v' \<Rightarrow> Some v'))" for xs
    by (induction xs) (auto split: option.splits)
  then show ?thesis by (simp add: copy_matching_def)
qed

lemma load_state_dict_permissive: "load_state_dict model st False = Inr (copy_matching model st)"
  by (simp add: load_state_dict_def copy_matching_def Let_def)

lemma load_model_error_trace:
  "snd (load_model env p) = Inl e \<Longrightarrow>
   fst (load_model env p) = [TorchLoad (str p) ''cuda:0''] \<or>
   (\<exists>cfg. fst (load_model env p) = [TorchLoad (str p) ''cuda:0'', ESMFoldInit cfg])"
  by (auto simp: load_model_def Let_def load_state_dict_permissive
      split: sum.splits pyval.splits if_splits)

lemma example_env_iter: "set_iter_ok (example_env d)"
  by (simp add: set_iter_ok_def example_env_def)

lemma example_partial:
  "load_model (example_env (PyDict (checkpoint_of partial_state))) v1_path =
     ([TorchLoad ''/models/esmfold_3B_v1.pt'' ''cuda:0'', ESMFoldInit example_config],
      Inl (RuntimeError (''Keys '' @ [apostrophe] @ ''head.bias, trunk.esm.weight'' @
        [apostrophe] @ '' are missing.'')))"
  by (simp add: load_model_def example_env_def checkpoint_of_def partial_state_def
      example_model_def missing_essential_keys_def set_difference_def missing_message_def
      str_def as_posix_def v1_path_def)

lemma example_complete:
  "load_model (example_env (PyDict (checkpoint_of complete_state))) p =
     ([TorchLoad (str p) ''cuda:0'', ESMFoldInit example_config,
       LoadStateDict complete_state False],
      Inr (copy_matching (example_model example_config) complete_state))"
  by (simp add: load_model_def example_env_def checkpoint_of_def complete_state_def
      example_model_def missing_essential_keys_def set_difference_def
      load_state_dict_def)

lemma example_loaded:
  "copy_matching (example_model example_config) complete_state =
     \<lparr>esmfold_config = example_config,
      state_dict = [(''esm.embed'', PyLeaf 0), (''trunk.weight'', PyLeaf 7),
        (''trunk.esm.weight'', PyLeaf 8), (''head.bias'', PyLeaf 9)]\<rparr>"
  by (simp add: copy_matching_def example_model_def complete_state_def)

lemma example_hyps:
  "torch_load (example_env (PyDict (checkpoint_of st))) f ''cuda:0'' = Inr (PyDict (checkpoint_of st))"
  "map_of (checkpoint_of st) ''cfg'' = Some (PyDict [(''model'', example_config)])"
  "map_of [(''model'', example_config)] ''model'' = Some example_config"
  "map_of (checkpoint_of st) ''model'' = Some (PyDict st)"
  "ESMFold (example_env (PyDict (checkpoint_of st))) example_config = Inr (example_model example_config)"
  by (simp_all add: example_env_def checkpoint_of_def)

lemma example_difference:
  "set (map fst (state_dict (example_model example_config))) - set (map fst complete_state) =
     {''esm.embed''}"
  by (auto simp: example_model_def complete_state_def)

subsection \<open>Paths and prefixes\<close>

lemma prefix_esm_take: "prefix ''esm.'' k \<longleftrightarrow> take 4 k = ''esm.''"
proof
  assume "prefix ''esm.'' k"
  then obtain r where "k = ''esm.'' @ r" by (auto simp: prefix_def)
  then show "take 4 k = ''esm.''" by simp
next
  assume "take 4 k = ''esm.''"
  then have "k = ''esm.'' @ drop 4 k" by (metis append_take_drop_id)
  then show "prefix ''esm.'' k" by (metis prefixI)
qed

lemma sublist_name_as_posix: "sublist x (name p) \<Longrightarrow> sublist x (as_posix p)"
proof (cases "components p = []")
  case True
  assume "sublist x (name p)"
  with True have "x = []" by (simp add: name_def)
  then show ?thesis by simp
next
  case False
  assume "sublist x (name p)"
  with False have "sublist x (join ''/'' (components p))"
    by (simp add: name_def sublist_join_last)
  then obtain ps ss where j: "join ''/'' (components p) = ps @ x @ ss"
    by (auto simp: sublist_def)
  show ?thesis
  proof (cases "is_absolute p")
    case True
    then have "as_posix p = (''/'' @ ps) @ x @ ss" by (simp add: as_posix_def j)
    then show ?thesis unfolding sublist_def by blast
  next
    case f: False
    with False j show ?thesis by (simp add: as_posix_def)
  qed
qed

lemma snd_returning_not_None: "snd (returning r) \<noteq> Inr None"
  by (simp add: returning_def split: sum.splits)

subsection \<open>The loader raises exactly when an essential key is missing\<close>

text \<open>
  C1. For a checkpoint that is a mapping with the two fields (\<^verbatim>\<open>cfg\<close> holding \<^verbatim>\<open>model\<close>, and
  \<^verbatim>\<open>model\<close> a mapping of names), from whose configuration the model is built:
  \<^verbatim>\<open>_load_model\<close> raises \<^verbatim>\<open>RuntimeError\<close> if and only if some name of the model that the
  checkpoint lacks does not start with \<^verbatim>\<open>esm.\<close>; when there is no such name it returns the
  model that was built, with the same configuration and the same parameter names.
\<close>

theorem load_model_raises_iff:
  assumes "torch_load env (str p) ''cuda:0'' = Inr (PyDict ckpt)"
    and "map_of ckpt ''cfg'' = Some (PyDict c)"
    and "map_of c ''model'' = Some cfg"
    and "map_of ckpt ''model'' = Some (PyDict st)"
    and "ESMFold env cfg = Inr model"
    and "set_iter_ok env"
  shows "((\<exists>msg. snd (load_model env p) = Inl (RuntimeError msg)) \<longleftrightarrow>
          (\<exists>k \<in> set (map fst (state_dict model)) - set (map fst st). \<not> prefix ''esm.'' k)) \<and>
         (\<not> (\<exists>k \<in> set (map fst (state_dict model)) - set (map fst st). \<not> prefix ''esm.'' k) \<longrightarrow>
          (\<exists>m. snd (load_model env p) = Inr m \<and> esmfold_config m = esmfold_config model \<and>
               map fst (state_dict m) = map fst (state_dict model)))"
proof -
  let ?missing = "missing_essential_keys env (map fst (state_dict model)) (map fst st)"
  note m = missing_essential_nonempty [OF assms(6), of "map fst (state_dict model)" "map fst st"]
  show ?thesis
  proof (cases "?missing = []")
    case True
    then have "snd (load_model env p) = Inr (copy_matching model st)"
      by (simp add: load_model_checked [OF assms(1-5)] load_state_dict_permissive)
    with True m show ?thesis
      by (simp add: copy_matching_keys copy_matching_config del: map_map)
  next
    case False
    then have "snd (load_model env p) = Inl (RuntimeError (missing_message ?missing))"
      by (simp add: load_model_checked [OF assms(1-5)])
    with False m show ?thesis by simp
  qed
qed

theorem load_model_raises_iff_witness:
  "torch_load (example_env (PyDict (checkpoint_of partial_state))) (str v1_path) ''cuda:0'' =
     Inr (PyDict (checkpoint_of partial_state)) \<and>
   map_of (checkpoint_of partial_state) ''cfg'' = Some (PyDict [(''model'', example_config)]) \<and>
   map_of (checkpoint_of partial_state) ''model'' = Some (PyDict partial_state) \<and>
   ESMFold (example_env (PyDict (checkpoint_of partial_state))) example_config =
     Inr (example_model example_config) \<and>
   set_iter_ok (example_env (PyDict (checkpoint_of partial_state))) \<and>
   (\<exists>msg. snd (load_model (example_env (PyDict (checkpoint_of partial_state))) v1_path) =
      Inl (RuntimeError msg)) \<and>
   (\<exists>k \<in> set (map fst (state_dict (example_model example_config))) - set (map fst partial_state).
      \<not> prefix ''esm.'' k)"
proof -
  let ?env = "example_env (PyDict (checkpoint_of partial_state))"
  have h1: "torch_load ?env (str v1_path) ''cuda:0'' = Inr (PyDict (checkpoint_of partial_state))"
    by (simp add: example_env_def)
  have h2: "map_of (checkpoint_of partial_state) ''cfg'' = Some (PyDict [(''model'', example_config)])"
    by (simp add: checkpoint_of_def)
  have h3: "map_of [(''model'', example_config)] ''model'' = Some example_config"
    by simp
  have h4: "map_of (checkpoint_of partial_state) ''model'' = Some (PyDict partial_state)"
    by (simp add: checkpoint_of_def)
  have h5: "ESMFold ?env example_config = Inr (example_model example_config)"
    by (simp add: example_env_def)
  have h6: "set_iter_ok ?env"
    by (rule example_env_iter)
  have k: "\<exists>k \<in> set (map fst (state_dict (example_model example_config))) -
      set (map fst partial_state). \<not> prefix ''esm.'' k"
    by (simp add: example_model_def partial_state_def)
  from load_model_raises_iff [OF h1 h2 h3 h4 h5 h6] k
  have "\<exists>msg. snd (load_model ?env v1_path) = Inl (RuntimeError msg)"
    by blast
  with h1 h2 h4 h5 h6 k show ?thesis by blast
qed

subsection \<open>The selectors look at the whole path\<close>

text \<open>
  The selectors test \<^verbatim>\<open>path.as_posix()\<close>, the whole path, not its final component. In
  \<^verbatim>\<open>esmfold_3B_v0/weights.pt\<close> the final component does not contain
  \<^verbatim>\<open>esmfold_3B_v0\<close>, and \<^verbatim>\<open>esmfold_v0\<close> loads the model all the same; for \<^verbatim>\<open>weights.pt\<close>, a
  path with the same final component, it returns \<^verbatim>\<open>None\<close>.
\<close>

theorem selector_final_component_counterexample:
  "\<not> sublist ''esmfold_3B_v0'' (name v0_directory_path) \<and>
   snd (esmfold_v0 (example_env (PyDict (checkpoint_of complete_state)))
          (PathArg v0_directory_path)) =
     Inr (Some (copy_matching (example_model example_config) complete_state)) \<and>
   name weights_path = name v0_directory_path \<and>
   snd (esmfold_v0 (example_env (PyDict (checkpoint_of complete_state)))
          (PathArg weights_path)) = Inr None"
  by (simp add: str_contains_sublist [symmetric] name_def v0_directory_path_def
      weights_path_def esmfold_v0_def as_posix_def returning_def example_complete)

text \<open>
  C2, as the code has it. For every path, a selector returns \<^verbatim>\<open>None\<close> exactly when the string
  \<^verbatim>\<open>as_posix()\<close> of the whole path does not contain its identifier (\<^verbatim>\<open>esmfold_3B_v0\<close> for
  \<^verbatim>\<open>esmfold_v0\<close>, \<^verbatim>\<open>esmfold_3B_v1\<close> for \<^verbatim>\<open>esmfold_v1\<close>). When the string contains it, the
  selector makes the calls of \<^verbatim>\<open>_load_model\<close> on that path and returns its model or raises
  its exception. A path whose final component contains the identifier is such a path.
\<close>

theorem selectors_dispatch_on_whole_path:
  "(snd (esmfold_v0 env (PathArg p)) = Inr None \<longleftrightarrow>
      \<not> sublist ''esmfold_3B_v0'' (as_posix p)) \<and>
   (sublist ''esmfold_3B_v0'' (as_posix p) \<longrightarrow>
      fst (esmfold_v0 env (PathArg p)) = fst (load_model env p) \<and>
      snd (esmfold_v0 env (PathArg p)) =
        (case snd (load_model env p) of Inl e \<Rightarrow> Inl e | Inr m \<Rightarrow> Inr (Some m))) \<and>
   (sublist ''esmfold_3B_v0'' (name p) \<longrightarrow> sublist ''esmfold_3B_v0'' (as_posix p)) \<and>
   (snd (esmfold_v1 env (PathArg p)) = Inr None \<longleftrightarrow>
      \<not> sublist ''esmfold_3B_v1'' (as_posix p)) \<and>
   (sublist ''esmfold_3B_v1'' (as_posix p) \<longrightarrow>
      fst (esmfold_v1 env (PathArg p)) = fst (load_model env p) \<and>
      snd (esmfold_v1 env (PathArg p)) =
        (case snd (load_model env p) of Inl e \<Rightarrow> Inl e | Inr m \<Rightarrow> Inr (Some m))) \<and>
   (sublist ''esmfold_3B_v1'' (name p) \<longrightarrow> sublist ''esmfold_3B_v1'' (as_posix p))"
proof -
  have v0: "esmfold_v0 env (PathArg p) =
      (if sublist ''esmfold_3B_v0'' (as_posix p) then returning (load_model env p)
       else ([], Inr None))"
    by (simp add: esmfold_v0_def str_contains_sublist)
  have v1: "esmfold_v1 env (PathArg p) =
      (if sublist ''esmfold_3B_v1'' (as_posix p) then returning (load_model env p)
       else ([], Inr None))"
    by (simp add: esmfold_v1_def str_contains_sublist)
  have r: "fst (returning r) = fst r \<and>
      snd (returning r) = (case snd r of Inl e \<Rightarrow> Inl e | Inr m \<Rightarrow> Inr (Some m))" for r :: "'a event list \<times> (error + 'a esmfold)"
    by (simp add: returning_def)
  show ?thesis
    unfolding v0 v1 using snd_returning_not_None [of "load_model env p"] r [of "load_model env p"]
    by (simp add: sublist_name_as_posix)
qed

theorem selectors_dispatch_on_whole_path_witness:
  "sublist ''esmfold_3B_v1'' (name v1_path) \<and>
   sublist ''esmfold_3B_v1'' (as_posix v1_path) \<and>
   snd (esmfold_v1 (example_env (PyDict (checkpoint_of complete_state))) (PathArg v1_path)) =
     Inr (Some (copy_matching (example_model example_config) complete_state)) \<and>
   \<not> sublist ''esmfold_3B_v0'' (as_posix v1_path) \<and>
   snd (esmfold_v0 (example_env (PyDict (checkpoint_of complete_state))) (PathArg v1_path)) =
     Inr None"
proof -
  let ?env = "example_env (PyDict (checkpoint_of complete_state))"
  note t = selectors_dispatch_on_whole_path [of ?env v1_path]
  have n: "sublist ''esmfold_3B_v1'' (name v1_path)"
    by (simp add: str_contains_sublist [symmetric] name_def v1_path_def)
  with t have a: "sublist ''esmfold_3B_v1'' (as_posix v1_path)" by blast
  with t have "snd (esmfold_v1 ?env (PathArg v1_path)) =
      (case snd (load_model ?env v1_path) of Inl e \<Rightarrow> Inl e | Inr m \<Rightarrow> Inr (Some m))"
    by blast
  then have s: "snd (esmfold_v1 ?env (PathArg v1_path)) =
      Inr (Some (copy_matching (example_model example_config) complete_state))"
    by (simp add: example_complete)
  have z: "\<not> sublist ''esmfold_3B_v0'' (as_posix v1_path)"
    by (simp add: str_contains_sublist [symmetric] as_posix_def v1_path_def)
  with t have "snd (esmfold_v0 ?env (PathArg v1_path)) = Inr None" by blast
  with n a s z show ?thesis by blast
qed

subsection \<open>Only optional keys missing\<close>

text \<open>
  C3. When every name of the model that the checkpoint lacks starts with \<^verbatim>\<open>esm.\<close>,
  \<^verbatim>\<open>_load_model\<close> does not raise: it returns the model, with the checkpoint's weights
  copied in.
\<close>

theorem load_model_succeeds_when_only_optional_missing:
  assumes "torch_load env (str p) ''cuda:0'' = Inr (PyDict ckpt)"
    and "map_of ckpt ''cfg'' = Some (PyDict c)"
    and "map_of c ''model'' = Some cfg"
    and "map_of ckpt ''model'' = Some (PyDict st)"
    and "ESMFold env cfg = Inr model"
    and "set_iter_ok env"
    and "\<forall>k \<in> set (map fst (state_dict model)) - set (map fst st). prefix ''esm.'' k"
  shows "snd (load_model env p) = Inr (copy_matching model st)"
proof -
  from assms(7) have "missing_essential_keys env (map fst (state_dict model)) (map fst st) = []"
    using missing_essential_nonempty [OF assms(6), of "map fst (state_dict model)" "map fst st"]
    by blast
  then show ?thesis
    by (simp add: load_model_checked [OF assms(1-5)] load_state_dict_permissive)
qed

theorem load_model_succeeds_when_only_optional_missing_witness:
  "torch_load (example_env (PyDict (checkpoint_of complete_state))) (str v1_path) ''cuda:0'' =
     Inr (PyDict (checkpoint_of complete_state)) \<and>
   ESMFold (example_env (PyDict (checkpoint_of complete_state))) example_config =
     Inr (example_model example_config) \<and>
   set_iter_ok (example_env (PyDict (checkpoint_of complete_state))) \<and>
   set (map fst (state_dict (example_model example_config))) - set (map fst complete_state) =
     {''esm.embed''} \<and>
   snd (load_model (example_env (PyDict (checkpoint_of complete_state))) v1_path) =
     Inr \<lparr>esmfold_config = example_config,
          state_dict = [(''esm.embed'', PyLeaf 0), (''trunk.weight'', PyLeaf 7),
            (''trunk.esm.weight'', PyLeaf 8), (''head.bias'', PyLeaf 9)]\<rparr>"
proof -
  let ?env = "example_env (PyDict (checkpoint_of complete_state))"
  note d = example_difference
  have o: "\<forall>k \<in> set (map fst (state_dict (example_model example_config))) -
      set (map fst complete_state). prefix ''esm.'' k"
    unfolding d by simp
  have "snd (load_model ?env v1_path) = Inr (copy_matching (example_model example_config) complete_state)"
    by (rule load_model_succeeds_when_only_optional_missing
        [OF example_hyps(1-5) example_env_iter o])
  with d example_hyps(1,5) [of complete_state] example_env_iter [of "PyDict (checkpoint_of complete_state)"]
  show ?thesis
    by (simp add: example_loaded)
qed

subsection \<open>The message of the error\<close>

text \<open>
  C4. When a name of the model that does not start with \<^verbatim>\<open>esm.\<close> is missing from the
  checkpoint, the exception is \<^verbatim>\<open>RuntimeError\<close> with the message
  \<^verbatim>\<open>Keys 'k1, k2, ...' are missing.\<close>, where the names joined between the quotes are, each
  once and in the order of the iteration, exactly the names of the model that the
  checkpoint lacks and that do not start with \<^verbatim>\<open>esm.\<close>: no name that the checkpoint has
  and no optional name is among them. Each of these names occurs in the message.
\<close>

theorem load_model_error_names_missing_keys:
  assumes "torch_load env (str p) ''cuda:0'' = Inr (PyDict ckpt)"
    and "map_of ckpt ''cfg'' = Some (PyDict c)"
    and "map_of c ''model'' = Some cfg"
    and "map_of ckpt ''model'' = Some (PyDict st)"
    and "ESMFold env cfg = Inr model"
    and "set_iter_ok env"
    and "k0 \<in> set (map fst (state_dict model))"
    and "k0 \<notin> set (map fst st)"
    and "\<not> prefix ''esm.'' k0"
  shows "\<exists>ks msg. snd (load_model env p) = Inl (RuntimeError msg) \<and>
           msg = ''Keys '' @ [apostrophe] @ join '', '' ks @ [apostrophe] @ '' are missing.'' \<and>
           distinct ks \<and>
           set ks = {k \<in> set (map fst (state_dict model)).
                      k \<notin> set (map fst st) \<and> \<not> prefix ''esm.'' k} \<and>
           (\<forall>k \<in> set ks. sublist k msg)"
proof -
  let ?ks = "missing_essential_keys env (map fst (state_dict model)) (map fst st)"
  let ?msg = "''Keys '' @ [apostrophe] @ join '', '' ?ks @ [apostrophe] @ '' are missing.''"
  from assms(7-9) have "?ks \<noteq> []"
    using missing_essential_nonempty [OF assms(6), of "map fst (state_dict model)" "map fst st"]
    by blast
  then have r: "snd (load_model env p) = Inl (RuntimeError ?msg)"
    by (simp add: load_model_checked [OF assms(1-5)] missing_message_def)
  have s: "set ?ks = {k \<in> set (map fst (state_dict model)).
      k \<notin> set (map fst st) \<and> \<not> prefix ''esm.'' k}"
    unfolding set_missing_essential_keys [OF assms(6)] startswith_prefix by blast
  have "sublist k ?msg" if "k \<in> set ?ks" for k
  proof -
    from that have "sublist k (join '', '' ?ks)" by (rule sublist_join)
    then obtain ps ss where "join '', '' ?ks = ps @ k @ ss" by (auto simp: sublist_def)
    then have "?msg = (''Keys '' @ [apostrophe] @ ps) @ k @ (ss @ [apostrophe] @ '' are missing.'')"
      by simp
    then show ?thesis unfolding sublist_def by blast
  qed
  with r s distinct_missing_essential_keys [OF assms(6)] show ?thesis by blast
qed

theorem load_model_error_names_missing_keys_witness:
  "torch_load (example_env (PyDict (checkpoint_of partial_state))) (str v1_path) ''cuda:0'' =
     Inr (PyDict (checkpoint_of partial_state)) \<and>
   ESMFold (example_env (PyDict (checkpoint_of partial_state))) example_config =
     Inr (example_model example_config) \<and>
   set_iter_ok (example_env (PyDict (checkpoint_of partial_state))) \<and>
   ''head.bias'' \<in> set (map fst (state_dict (example_model example_config))) \<and>
   ''head.bias'' \<notin> set (map fst partial_state) \<and>
   \<not> prefix ''esm.'' ''head.bias'' \<and>
   (\<exists>ks. snd (load_model (example_env (PyDict (checkpoint_of partial_state))) v1_path) =
       Inl (RuntimeError
         (''Keys '' @ [apostrophe] @ join '', '' ks @ [apostrophe] @ '' are missing.'')) \<and>
     distinct ks \<and> set ks = {''head.bias'', ''trunk.esm.weight''})"
proof -
  let ?env = "example_env (PyDict (checkpoint_of partial_state))"
  have a: "''head.bias'' \<in> set (map fst (state_dict (example_model example_config)))"
    by (simp add: example_model_def)
  have b: "''head.bias'' \<notin> set (map fst partial_state)"
    by (simp add: partial_state_def)
  have c: "\<not> prefix ''esm.'' ''head.bias''"
    by simp
  have e: "{k \<in> set (map fst (state_dict (example_model example_config))).
      k \<notin> set (map fst partial_state) \<and> \<not> prefix ''esm.'' k} =
      {''head.bias'', ''trunk.esm.weight''}"
    by (auto simp: example_model_def partial_state_def)
  from load_model_error_names_missing_keys [OF example_hyps(1-5) example_env_iter a b c,
      where p = v1_path]
  have "\<exists>ks. snd (load_model ?env v1_path) =
       Inl (RuntimeError
         (''Keys '' @ [apostrophe] @ join '', '' ks @ [apostrophe] @ '' are missing.'')) \<and>
     distinct ks \<and> set ks = {''head.bias'', ''trunk.esm.weight''}"
    unfolding e by blast
  with a b c example_hyps(1,5) [of partial_state]
    example_env_iter [of "PyDict (checkpoint_of partial_state)"]
  show ?thesis by simp
qed

subsection \<open>Permissive loading\<close>

text \<open>
  C5. When no required name is missing, the weights are loaded with \<^verbatim>\<open>strict=False\<close> and
  the model is returned. Names that only the checkpoint has are not an error and leave
  no trace in the model; parameters that the checkpoint lacks (they are optional ones)
  are not an error and keep their values; every other parameter has the checkpoint's
  value. The names of the parameters do not change.
\<close>

theorem load_model_loads_permissively:
  assumes "torch_load env (str p) ''cuda:0'' = Inr (PyDict ckpt)"
    and "map_of ckpt ''cfg'' = Some (PyDict c)"
    and "map_of c ''model'' = Some cfg"
    and "map_of ckpt ''model'' = Some (PyDict st)"
    and "ESMFold env cfg = Inr model"
    and "set_iter_ok env"
    and "\<forall>k \<in> set (map fst (state_dict model)) - set (map fst st). prefix ''esm.'' k"
  shows "\<exists>m. load_model env p =
           ([TorchLoad (str p) ''cuda:0'', ESMFoldInit cfg, LoadStateDict st False], Inr m) \<and>
           load_state_dict model st False = Inr m \<and>
           map fst (state_dict m) = map fst (state_dict model) \<and>
           (\<forall>k. map_of (state_dict m) k =
              (case map_of (state_dict model) k of
                 None \<Rightarrow> None
               | Some v \<Rightarrow> (case map_of st k of None \<Rightarrow> Some v | Some v' \<Rightarrow> Some v')))"
proof -
  from assms(7) have "missing_essential_keys env (map fst (state_dict model)) (map fst st) = []"
    using missing_essential_nonempty [OF assms(6), of "map fst (state_dict model)" "map fst st"]
    by blast
  then have "load_model env p =
      ([TorchLoad (str p) ''cuda:0'', ESMFoldInit cfg, LoadStateDict st False],
       Inr (copy_matching model st))"
    by (simp add: load_model_checked [OF assms(1-5)] load_state_dict_permissive)
  then show ?thesis
    using copy_matching_keys [of model st] map_of_copy_matching [of model st]
      load_state_dict_permissive [of model st]
    by blast
qed

theorem load_model_loads_permissively_witness:
  "torch_load (example_env (PyDict (checkpoint_of complete_state))) (str weights_path) ''cuda:0'' =
     Inr (PyDict (checkpoint_of complete_state)) \<and>
   ESMFold (example_env (PyDict (checkpoint_of complete_state))) example_config =
     Inr (example_model example_config) \<and>
   set_iter_ok (example_env (PyDict (checkpoint_of complete_state))) \<and>
   ''extra.bias'' \<in> set (map fst complete_state) \<and>
   ''extra.bias'' \<notin> set (map fst (state_dict (example_model example_config))) \<and>
   ''esm.embed'' \<in> set (map fst (state_dict (example_model example_config))) \<and>
   ''esm.embed'' \<notin> set (map fst complete_state) \<and>
   (\<exists>m. load_model (example_env (PyDict (checkpoint_of complete_state))) weights_path =
      ([TorchLoad ''weights.pt'' ''cuda:0'', ESMFoldInit example_config,
        LoadStateDict complete_state False], Inr m) \<and>
      map_of (state_dict m) ''extra.bias'' = None \<and>
      map_of (state_dict m) ''esm.embed'' = Some (PyLeaf 0) \<and>
      map_of (state_dict m) ''head.bias'' = Some (PyLeaf 9))"
proof -
  let ?env = "example_env (PyDict (checkpoint_of complete_state))"
  note d = example_difference
  have o: "\<forall>k \<in> set (map fst (state_dict (example_model example_config))) -
      set (map fst complete_state). prefix ''esm.'' k"
    unfolding d by simp
  have s: "str weights_path = ''weights.pt''"
    by (simp add: str_def as_posix_def weights_path_def)
  from load_model_loads_permissively [OF example_hyps(1-5) example_env_iter o,
      where p = weights_path]
  obtain m where m: "load_model ?env weights_path =
      ([TorchLoad ''weights.pt'' ''cuda:0'', ESMFoldInit example_config,
        LoadStateDict complete_state False], Inr m)"
    and v: "\<And>k. map_of (state_dict m) k =
      (case map_of (state_dict (example_model example_config)) k of
         None \<Rightarrow> None
       | Some v \<Rightarrow> (case map_of complete_state k of None \<Rightarrow> Some v | Some v' \<Rightarrow> Some v'))"
    unfolding s by blast
  have "map_of (state_dict m) ''extra.bias'' = None"
    and "map_of (state_dict m) ''esm.embed'' = Some (PyLeaf 0)"
    and "map_of (state_dict m) ''head.bias'' = Some (PyLeaf 9)"
    unfolding v by (simp_all add: example_model_def complete_state_def)
  with m have "\<exists>m. load_model ?env weights_path =
      ([TorchLoad ''weights.pt'' ''cuda:0'', ESMFoldInit example_config,
        LoadStateDict complete_state False], Inr m) \<and>
      map_of (state_dict m) ''extra.bias'' = None \<and>
      map_of (state_dict m) ''esm.embed'' = Some (PyLeaf 0) \<and>
      map_of (state_dict m) ''head.bias'' = Some (PyLeaf 9)"
    by blast
  moreover have "''extra.bias'' \<in> set (map fst complete_state)"
    "''extra.bias'' \<notin> set (map fst (state_dict (example_model example_config)))"
    "''esm.embed'' \<in> set (map fst (state_dict (example_model example_config)))"
    "''esm.embed'' \<notin> set (map fst complete_state)"
    by (simp_all add: example_model_def complete_state_def)
  ultimately show ?thesis
    using example_hyps(1,5) [of complete_state]
      example_env_iter [of "PyDict (checkpoint_of complete_state)"]
    by simp
qed

subsection \<open>Order of the effects\<close>

text \<open>
  C6. When \<^verbatim>\<open>_load_model\<close> raises, for a missing key or otherwise, \<^verbatim>\<open>load_state_dict\<close> has
  not been called: the exception comes before any weight is loaded.
\<close>

theorem load_model_error_before_loading:
  "snd (load_model env p) = Inl e \<Longrightarrow> LoadStateDict st strict \<notin> set (fst (load_model env p))"
  using load_model_error_trace [of env p e] by auto

theorem load_model_error_before_loading_witness:
  "snd (load_model (example_env (PyDict (checkpoint_of partial_state))) v1_path) =
     Inl (RuntimeError (missing_message [''head.bias'', ''trunk.esm.weight''])) \<and>
   LoadStateDict partial_state False \<notin>
     set (fst (load_model (example_env (PyDict (checkpoint_of partial_state))) v1_path))"
proof -
  have e: "snd (load_model (example_env (PyDict (checkpoint_of partial_state))) v1_path) =
     Inl (RuntimeError (missing_message [''head.bias'', ''trunk.esm.weight'']))"
    by (simp add: example_partial missing_message_def)
  from load_model_error_before_loading [OF e] e show ?thesis by blast
qed

text \<open>
  C7. For every environment and every path, \<^verbatim>\<open>_load_model\<close> deserialises with the one call
  \<^verbatim>\<open>torch.load(str(model_path), map_location="cuda:0")\<close>. It is the only call of \<^verbatim>\<open>torch.load\<close>
  recorded. What \<^verbatim>\<open>torch.load\<close> would give for any other device or file has no influence:
  the outcome is the same under every deserialiser that agrees on this path and
  \<^verbatim>\<open>cuda:0\<close>. The outcome of that call is used: when it fails, \<^verbatim>\<open>_load_model\<close> fails with
  its exception, and a model is returned only when it has given a checkpoint. The device
  is the same for every path and every checkpoint.
\<close>

theorem load_model_fixed_device:
  "(TorchLoad file device \<in> set (fst (load_model env p)) \<longleftrightarrow>
      file = str p \<and> device = ''cuda:0'') \<and>
   (f (str p) ''cuda:0'' = torch_load env (str p) ''cuda:0'' \<longrightarrow>
      load_model (env\<lparr>torch_load := f\<rparr>) p = load_model env p) \<and>
   (torch_load env (str p) ''cuda:0'' = Inl e \<longrightarrow>
      load_model env p = ([TorchLoad (str p) ''cuda:0''], Inl e)) \<and>
   (snd (load_model env p) = Inr m \<longrightarrow>
      (\<exists>data. torch_load env (str p) ''cuda:0'' = Inr data))"
proof -
  have trace: "TorchLoad file device \<in> set (fst (load_model env p)) \<longleftrightarrow>
      file = str p \<and> device = ''cuda:0''"
    by (auto simp: load_model_def Let_def split: sum.splits pyval.splits)
  have keys: "missing_essential_keys (env\<lparr>torch_load := f\<rparr>) xs ys =
      missing_essential_keys env xs ys" for xs ys
    by (simp add: missing_essential_keys_def)
  have same: "load_model (env\<lparr>torch_load := f\<rparr>) p = load_model env p"
    if "f (str p) ''cuda:0'' = torch_load env (str p) ''cuda:0''"
    using that by (simp add: load_model_def keys Let_def split: sum.splits pyval.splits)
  have fails: "load_model env p = ([TorchLoad (str p) ''cuda:0''], Inl e)"
    if "torch_load env (str p) ''cuda:0'' = Inl e"
    using that by (simp add: load_model_def)
  have given: "\<exists>data. torch_load env (str p) ''cuda:0'' = Inr data"
    if "snd (load_model env p) = Inr m"
  proof (cases "torch_load env (str p) ''cuda:0''")
    case (Inl e')
    then have "snd (load_model env p) = Inl e'" by (simp add: load_model_def)
    with that show ?thesis by simp
  next
    case (Inr data)
    then show ?thesis by blast
  qed
  from trace same fails given show ?thesis by blast
qed

theorem load_model_fixed_device_witness:
  "TorchLoad (str v1_path) ''cuda:0'' \<in>
     set (fst (load_model (example_env (PyDict (checkpoint_of complete_state))) v1_path)) \<and>
   cuda_only_load (PyDict (checkpoint_of complete_state)) (str v1_path) ''cuda:0'' =
     torch_load (example_env (PyDict (checkpoint_of complete_state))) (str v1_path) ''cuda:0'' \<and>
   cuda_only_load (PyDict (checkpoint_of complete_state)) (str v1_path) ''cpu'' =
     Inl (OtherError ''no such device'') \<and>
   load_model ((example_env (PyDict (checkpoint_of complete_state)))
       \<lparr>torch_load := cuda_only_load (PyDict (checkpoint_of complete_state))\<rparr>) v1_path =
     load_model (example_env (PyDict (checkpoint_of complete_state))) v1_path \<and>
   torch_load unreadable_env (str v1_path) ''cuda:0'' = Inl (OtherError ''no such file'') \<and>
   load_model unreadable_env v1_path =
     ([TorchLoad (str v1_path) ''cuda:0''], Inl (OtherError ''no such file'')) \<and>
   snd (load_model (example_env (PyDict (checkpoint_of complete_state))) v1_path) =
     Inr (copy_matching (example_model example_config) complete_state) \<and>
   (\<exists>data. torch_load (example_env (PyDict (checkpoint_of complete_state)))
      (str v1_path) ''cuda:0'' = Inr data)"
proof -
  let ?env = "example_env (PyDict (checkpoint_of complete_state))"
  let ?f = "cuda_only_load (PyDict (checkpoint_of complete_state))"
  have a: "?f (str v1_path) ''cuda:0'' = torch_load ?env (str v1_path) ''cuda:0''"
    by (simp add: cuda_only_load_def example_env_def)
  have b: "?f (str v1_path) ''cpu'' = Inl (OtherError ''no such device'')"
    by (simp add: cuda_only_load_def)
  have c: "torch_load unreadable_env (str v1_path) ''cuda:0'' = Inl (OtherError ''no such file'')"
    by (simp add: unreadable_env_def)
  have d: "snd (load_model ?env v1_path) =
      Inr (copy_matching (example_model example_config) complete_state)"
    by (simp add: example_complete)
  from load_model_fixed_device
    [of "str v1_path" "''cuda:0''" ?env v1_path ?f "OtherError ''no such file''"
      "copy_matching (example_model example_config) complete_state"]
  have t: "TorchLoad (str v1_path) ''cuda:0'' \<in> set (fst (load_model ?env v1_path))"
    and s: "load_model (?env\<lparr>torch_load := ?f\<rparr>) v1_path = load_model ?env v1_path"
    and g: "\<exists>data. torch_load ?env (str v1_path) ''cuda:0'' = Inr data"
    using a d by blast+
  from load_model_fixed_device
    [of "str v1_path" "''cuda:0''" unreadable_env v1_path ?f "OtherError ''no such file''"
      "copy_matching (example_model example_config) complete_state"]
  have u: "load_model unreadable_env v1_path =
      ([TorchLoad (str v1_path) ''cuda:0''], Inl (OtherError ''no such file''))"
    using c by blast
  from t a b s c u d g show ?thesis by blast
qed

subsection \<open>What counts as optional\<close>

text \<open>
  C8. A name of the model that the checkpoint lacks is optional only if its first four
  characters are \<^verbatim>\<open>esm.\<close>. Any other missing name, also one that has \<^verbatim>\<open>esm.\<close> further to
  the right such as \<^verbatim>\<open>trunk.esm.weight\<close>, is collected as essential, and \<^verbatim>\<open>_load_model\<close>
  raises the error that names it.
\<close>

theorem optional_only_with_prefix_at_start:
  assumes "torch_load env (str p) ''cuda:0'' = Inr (PyDict ckpt)"
    and "map_of ckpt ''cfg'' = Some (PyDict c)"
    and "map_of c ''model'' = Some cfg"
    and "map_of ckpt ''model'' = Some (PyDict st)"
    and "ESMFold env cfg = Inr model"
    and "set_iter_ok env"
    and "k \<in> set (map fst (state_dict model))"
    and "k \<notin> set (map fst st)"
  shows "(k \<in> set (missing_essential_keys env (map fst (state_dict model)) (map fst st)) \<longleftrightarrow>
            take 4 k \<noteq> ''esm.'') \<and>
         (take 4 k \<noteq> ''esm.'' \<longrightarrow>
            (\<exists>ks. snd (load_model env p) = Inl (RuntimeError (missing_message ks)) \<and>
                  k \<in> set ks))"
proof -
  let ?ks = "missing_essential_keys env (map fst (state_dict model)) (map fst st)"
  from assms(7,8) have m: "k \<in> set ?ks \<longleftrightarrow> take 4 k \<noteq> ''esm.''"
    unfolding set_missing_essential_keys [OF assms(6)] startswith_prefix prefix_esm_take
    by simp
  have "snd (load_model env p) = Inl (RuntimeError (missing_message ?ks))" if "k \<in> set ?ks"
  proof -
    from that have "?ks \<noteq> []" by auto
    then show ?thesis by (simp add: load_model_checked [OF assms(1-5)])
  qed
  with m show ?thesis by blast
qed

theorem optional_only_with_prefix_at_start_witness:
  "torch_load (example_env (PyDict (checkpoint_of partial_state))) (str v1_path) ''cuda:0'' =
     Inr (PyDict (checkpoint_of partial_state)) \<and>
   ESMFold (example_env (PyDict (checkpoint_of partial_state))) example_config =
     Inr (example_model example_config) \<and>
   set_iter_ok (example_env (PyDict (checkpoint_of partial_state))) \<and>
   ''trunk.esm.weight'' \<in> set (map fst (state_dict (example_model example_config))) \<and>
   ''trunk.esm.weight'' \<notin> set (map fst partial_state) \<and>
   sublist ''esm.'' ''trunk.esm.weight'' \<and>
   take 4 ''trunk.esm.weight'' \<noteq> ''esm.'' \<and>
   (\<exists>ks. snd (load_model (example_env (PyDict (checkpoint_of partial_state))) v1_path) =
      Inl (RuntimeError (missing_message ks)) \<and> ''trunk.esm.weight'' \<in> set ks)"
proof -
  let ?env = "example_env (PyDict (checkpoint_of partial_state))"
  have a: "''trunk.esm.weight'' \<in> set (map fst (state_dict (example_model example_config)))"
    by (simp add: example_model_def)
  have b: "''trunk.esm.weight'' \<notin> set (map fst partial_state)"
    by (simp add: partial_state_def)
  have c: "take 4 ''trunk.esm.weight'' \<noteq> ''esm.''"
    by simp
  have d: "sublist ''esm.'' ''trunk.esm.weight''"
    by (simp add: str_contains_sublist [symmetric])
  from optional_only_with_prefix_at_start [OF example_hyps(1-5) example_env_iter a b,
      where p = v1_path] c
  have "\<exists>ks. snd (load_model ?env v1_path) = Inl (RuntimeError (missing_message ks)) \<and>
      ''trunk.esm.weight'' \<in> set ks"
    by blast
  with a b c d example_hyps(1,5) [of partial_state]
    example_env_iter [of "PyDict (checkpoint_of partial_state)"]
  show ?thesis by simp
qed

subsection \<open>The argument of the selectors\<close>

text \<open>
  C9. Called with a plain string, \<^verbatim>\<open>esmfold_v0\<close> and \<^verbatim>\<open>esmfold_v1\<close> raise
  \<^verbatim>\<open>AttributeError\<close>, whatever the string is: a string has no method \<^verbatim>\<open>as_posix\<close>. They
  make no library call and return neither \<^verbatim>\<open>None\<close> nor a model.
\<close>

theorem selectors_reject_plain_strings:
  "esmfold_v0 env (StrArg s) = ([], Inl (AttributeError ''as_posix'')) \<and>
   esmfold_v1 env (StrArg s) = ([], Inl (AttributeError ''as_posix''))"
  by (simp add: esmfold_v0_def esmfold_v1_def)

subsection \<open>Checkpoints that lack a field\<close>

text \<open>
  A checkpoint that lacks the top-level \<^verbatim>\<open>model\<close> need not end in \<^verbatim>\<open>KeyError\<close>: line 29 comes
  first. For the checkpoint \<^verbatim>\<open>{"cfg": 5}\<close> the subscript \<^verbatim>\<open>5["model"]\<close> raises \<^verbatim>\<open>TypeError\<close>, and
  line 31 is not reached.
\<close>

theorem lacking_model_field_type_error_counterexample:
  "map_of scalar_cfg_checkpoint ''model'' = None \<and>
   load_model (example_env (PyDict scalar_cfg_checkpoint)) v1_path =
     ([TorchLoad ''/models/esmfold_3B_v1.pt'' ''cuda:0''], Inl TypeError)"
  by (simp add: scalar_cfg_checkpoint_def load_model_def example_env_def str_def as_posix_def
      v1_path_def)

text \<open>
  C10, as the code has it. When the deserialised checkpoint is a mapping that lacks \<^verbatim>\<open>cfg\<close>,
  or whose \<^verbatim>\<open>cfg\<close> is a mapping without \<^verbatim>\<open>model\<close>, or that lacks the top-level \<^verbatim>\<open>model\<close>,
  \<^verbatim>\<open>_load_model\<close> raises after \<^verbatim>\<open>torch.load\<close> alone (the model is not constructed and no key
  is compared), and the exception is never the \<^verbatim>\<open>RuntimeError\<close> of the validation. It is
  \<^verbatim>\<open>KeyError\<close> for \<^verbatim>\<open>cfg\<close> or for \<^verbatim>\<open>model\<close> unless \<^verbatim>\<open>cfg\<close> is present and is not a mapping;
  then it is the error of subscripting that value, which is not a \<^verbatim>\<open>KeyError\<close>.
\<close>

theorem load_model_key_error_before_validation:
  assumes "torch_load env (str p) ''cuda:0'' = Inr (PyDict ckpt)"
    and "map_of ckpt ''cfg'' = None \<or>
         (\<exists>c. map_of ckpt ''cfg'' = Some (PyDict c) \<and> map_of c ''model'' = None) \<or>
         map_of ckpt ''model'' = None"
  shows "\<exists>e. load_model env p = ([TorchLoad (str p) ''cuda:0''], Inl e) \<and>
             (\<forall>msg. e \<noteq> RuntimeError msg) \<and>
             ((\<forall>w. map_of ckpt ''cfg'' \<noteq> Some (PyLeaf w)) \<longrightarrow>
                e = KeyError ''cfg'' \<or> e = KeyError ''model'') \<and>
             ((\<exists>w. map_of ckpt ''cfg'' = Some (PyLeaf w)) \<longrightarrow> (\<forall>k. e \<noteq> KeyError k))"
proof (cases "map_of ckpt ''cfg''")
  case None
  with assms(1) have "load_model env p = ([TorchLoad (str p) ''cuda:0''], Inl (KeyError ''cfg''))"
    by (simp add: load_model_def)
  with None show ?thesis by simp
next
  case (Some v)
  show ?thesis
  proof (cases v)
    case (PyLeaf w)
    with Some assms(1) have "load_model env p = ([TorchLoad (str p) ''cuda:0''], Inl TypeError)"
      by (simp add: load_model_def)
    with Some PyLeaf show ?thesis by simp
  next
    case (PyDict c)
    with Some assms(2) have "map_of c ''model'' = None \<or> map_of ckpt ''model'' = None"
      by auto
    with Some PyDict assms(1)
    have "load_model env p = ([TorchLoad (str p) ''cuda:0''], Inl (KeyError ''model''))"
      by (auto simp: load_model_def split: option.splits)
    with Some PyDict show ?thesis by simp
  qed
qed

theorem load_model_key_error_before_validation_witness:
  "torch_load (example_env (PyDict headless_checkpoint)) (str v1_path) ''cuda:0'' =
     Inr (PyDict headless_checkpoint) \<and>
   map_of headless_checkpoint ''cfg'' = Some (PyDict [(''model'', example_config)]) \<and>
   map_of headless_checkpoint ''model'' = None \<and>
   (\<exists>e. load_model (example_env (PyDict headless_checkpoint)) v1_path =
      ([TorchLoad (str v1_path) ''cuda:0''], Inl e) \<and>
      (e = KeyError ''cfg'' \<or> e = KeyError ''model''))"
proof -
  have a: "torch_load (example_env (PyDict headless_checkpoint)) (str v1_path) ''cuda:0'' =
     Inr (PyDict headless_checkpoint)"
    by (simp add: example_env_def)
  have b: "map_of headless_checkpoint ''cfg'' = Some (PyDict [(''model'', example_config)])"
    and c: "map_of headless_checkpoint ''model'' = None"
    by (simp_all add: headless_checkpoint_def)
  from c have d: "map_of headless_checkpoint ''cfg'' = None \<or>
         (\<exists>c. map_of headless_checkpoint ''cfg'' = Some (PyDict c) \<and> map_of c ''model'' = None) \<or>
         map_of headless_checkpoint ''model'' = None"
    by blast
  from b have n: "\<forall>w. map_of headless_checkpoint ''cfg'' \<noteq> Some (PyLeaf w)"
    by simp
  from load_model_key_error_before_validation [OF a d] n
  have "\<exists>e. load_model (example_env (PyDict headless_checkpoint)) v1_path =
      ([TorchLoad (str v1_path) ''cuda:0''], Inl e) \<and>
      (e = KeyError ''cfg'' \<or> e = KeyError ''model'')"
    by blast
  with a b c show ?thesis by blast
qed

end
